theory Spec2Isabelle
  imports Main "HOL-Library.Word" "HOL-Library.Mapping" "HOL-Library.AList_Mapping" "HOL-Library.Sublist"
begin

section \<open>Values shared by the whole package\<close>

text \<open>
  Go strings are byte sequences; a \<^typ>\<open>string\<close> is a list of bytes as well.
  Go's \<open>uint\<close> is taken at its 64-bit width, the width \<open>strconv.ParseUint\<close> is
  asked for (\<open>bit64\<close>), so that the conversions \<open>uint64(x)\<close> and \<open>uint(v)\<close> of the
  source are the identity.
\<close>

type_synonym uint = "64 word"

text \<open>
  A function of the source that can panic (an index or a slice bound out of range)
  returns an outcome: the panic is a value of the model.
\<close>

datatype 'a outcome = Returned 'a | Panics

section \<open>The library functions the package calls\<close>

subsection \<open>\<open>strconv.FormatUint\<close> and \<open>strconv.ParseUint\<close> in base 10\<close>

text \<open>
  Modelled from the spec: the constants \<open>base10\<close> and \<open>bit64\<close>, which the source passes to
  \<open>strconv\<close> and whose declarations are not among the source files, are 10 and 64. The
  spec has the internal port parsed as an unsigned integer, and the runtime prints and
  reads ports in decimal.
\<close>

definition digit_char :: "int \<Rightarrow> char" where
  "digit_char d = char_of (48 + d)"

definition is_digit :: "char \<Rightarrow> bool" where
  "is_digit c = (48 \<le> (of_char c :: int) \<and> (of_char c :: int) \<le> 57)"

definition digit_val :: "char \<Rightarrow> int" where
  "digit_val c = of_char c - 48"

function format_int :: "int \<Rightarrow> string" where
  "format_int n =
     (if n < 10 then [digit_char n] else format_int (n div 10) @ [digit_char (n mod 10)])"
  by pat_completeness auto
termination
  by (relation "measure nat") auto

declare format_int.simps [simp del]

definition FormatUint :: "uint \<Rightarrow> string" where
  "FormatUint w = format_int (uint w)"

datatype num_error = ErrSyntax | ErrRange

definition maxUint64 :: int where
  "maxUint64 = 18446744073709551615"

text \<open>
  \<open>ParseUint(s, 10, 64)\<close>: the empty string is a syntax error; the digits are read from
  the left, a byte that is no digit is a syntax error and a value beyond \<open>2^64 - 1\<close> a
  range error, whichever comes first. No sign and no underscore is accepted.
\<close>

fun parse_digits :: "int \<Rightarrow> string \<Rightarrow> num_error + int" where
  "parse_digits n [] = Inr n"
| "parse_digits n (c # cs) =
     (if \<not> is_digit c then Inl ErrSyntax
      else if n * 10 + digit_val c > maxUint64 then Inl ErrRange
      else parse_digits (n * 10 + digit_val c) cs)"

definition ParseUint :: "string \<Rightarrow> num_error + uint" where
  "ParseUint s =
     (if s = [] then Inl ErrSyntax
      else case parse_digits 0 s of Inl e \<Rightarrow> Inl e | Inr n \<Rightarrow> Inr (word_of_int n))"

subsection \<open>\<open>strings.Split\<close>, \<open>strings.ReplaceAll\<close>, \<open>strings.ToUpper\<close>\<close>

text \<open>
  \<open>strings.Split(s, sep)\<close> cuts \<open>s\<close> at every occurrence of \<open>sep\<close>, found from the left
  and not overlapping; the result always has at least one element. With an empty
  separator Go cuts after every UTF-8 sequence, which for ASCII text is after every byte;
  the package only splits at \<open>" -> "\<close> and \<open>":"\<close>.
\<close>

function split_from :: "string \<Rightarrow> string \<Rightarrow> string \<Rightarrow> string list" where
  "split_from sep cur [] = [cur]"
| "split_from sep cur (c # cs) =
     (if sep \<noteq> [] \<and> prefix sep (c # cs)
      then cur # split_from sep [] (drop (length sep) (c # cs))
      else split_from sep (cur @ [c]) cs)"
  by pat_completeness auto
termination
  by (relation "measure (\<lambda>(sep, cur, s). length s)") auto

definition Split :: "string \<Rightarrow> string \<Rightarrow> string list" where
  "Split s sep = (if sep = [] then map (\<lambda>c. [c]) s else split_from sep [] s)"

text \<open>
  \<open>strings.ReplaceAll(s, old, new)\<close> replaces the occurrences of \<open>old\<close>, found from the
  left and not overlapping. With an empty \<open>old\<close> Go inserts \<open>new\<close> before every UTF-8
  sequence and at the end; the package only removes \<open>"/tcp"\<close>.
\<close>

function replace_from :: "string \<Rightarrow> string \<Rightarrow> string \<Rightarrow> string" where
  "replace_from old new [] = []"
| "replace_from old new (c # cs) =
     (if old \<noteq> [] \<and> prefix old (c # cs)
      then new @ replace_from old new (drop (length old) (c # cs))
      else c # replace_from old new cs)"
  by pat_completeness auto
termination
  by (relation "measure (\<lambda>(old, new, s). length s)") auto

definition ReplaceAll :: "string \<Rightarrow> string \<Rightarrow> string \<Rightarrow> string" where
  "ReplaceAll s old new =
     (if old = [] then new @ concat (map (\<lambda>c. c # new) s) else replace_from old new s)"

text \<open>
  \<open>strings.ToUpper\<close>: a string of ASCII bytes only has its letters \<open>a\<close> to \<open>z\<close> moved to
  \<open>A\<close> to \<open>Z\<close>; any other string is mapped rune by rune through Unicode's case table,
  \<open>Map(unicode.ToUpper, s)\<close>, which is the parameter \<open>umap\<close> here.
\<close>

definition upper_ascii :: "char \<Rightarrow> char" where
  "upper_ascii c =
     (if 97 \<le> (of_char c :: int) \<and> (of_char c :: int) \<le> 122 then char_of ((of_char c :: int) - 32) else c)"

definition ToUpper :: "(string \<Rightarrow> string) \<Rightarrow> string \<Rightarrow> string" where
  "ToUpper umap s =
     (if list_all (\<lambda>c. (of_char c :: int) < 128) s then map upper_ascii s else umap s)"

subsection \<open>\<open>bufio.Scanner\<close> with the default line splitter\<close>

datatype error =
    Run_error string
  | Ctx_error string
  | ErrTooLong
  | Start_failed string string "string list"
  | Inspect_failed string
  | Joined error error
  | Invalid_state string string string
  | Ports_failed string
  | Logs_failed string error
  | Volumes_failed string "string list"
  | Delete_volumes_failed string
  | Stop_failed string
  | Remove_failed string
  | Launch_failed string string error
  | Launch_failed_logs string string error string
  | Wait_failed error string string

text \<open>
  The constructors are the errors the package builds, with the arguments of their format
  strings: \<open>Run_error\<close> is what \<open>cmd.Run\<close> returns, \<open>Ctx_error\<close> is \<open>ctx.Err()\<close>,
  \<open>Joined\<close> is \<open>errors.Join\<close>, \<open>Start_failed out err args\<close> is
  \<open>"unable to start container:\n%s\n%s\nargs: %q"\<close>,
  \<open>Invalid_state state out err\<close> is \<open>"container in invalid state: %s\nstdOut:%s\nstdErr:%s"\<close>,
  \<open>Launch_failed image id e\<close> is \<open>"[%s](%s) %w"\<close>,
  \<open>Launch_failed_logs image id e logs\<close> is \<open>"[%s](%s) %w\nlogs:%s"\<close> and
  \<open>Wait_failed e stdErr stdOut\<close> is \<open>"wait command errored: %w\n\tstdErr:%s\n\tstdOut:%s"\<close>;
  the others carry the captured standard error of the command that failed.
\<close>

definition LF :: char where
  "LF = CHR 0x0A"

definition CR :: char where
  "CR = CHR 0x0D"

definition MaxScanTokenSize :: nat where
  "MaxScanTokenSize = 65536"

definition dropCR :: "string \<Rightarrow> string" where
  "dropCR l = (if l \<noteq> [] \<and> last l = CR then butlast l else l)"

text \<open>
  The scanner delivers the lines of its input: the text up to each line feed, and a last
  unterminated line if it is not empty, each without one trailing carriage return. A line
  that does not fit the buffer of \<open>MaxScanTokenSize\<close> bytes together with its line feed
  ends the scan with \<open>ErrTooLong\<close>, after the lines before it have been delivered.
  \<open>scan_lines cur s\<close> is the list of lines delivered and the scanner's final error, \<open>cur\<close>
  being the part of the current line already read.
\<close>

fun scan_lines :: "string \<Rightarrow> string \<Rightarrow> string list \<times> error option" where
  "scan_lines cur [] =
     (if cur = [] then ([], None)
      else if MaxScanTokenSize \<le> length cur then ([], Some ErrTooLong)
      else ([dropCR cur], None))"
| "scan_lines cur (c # cs) =
     (if c = LF
      then (if MaxScanTokenSize \<le> length cur then ([], Some ErrTooLong)
            else (case scan_lines [] cs of (ls, e) \<Rightarrow> (dropCR cur # ls, e)))
      else scan_lines (cur @ [c]) cs)"

section \<open>The container runtime as the package sees it\<close>

text \<open>
  Every command is run under a context: the caller's, or a context the package makes
  itself with \<open>context.WithTimeout(context.Background(), n * time.Second)\<close>.
\<close>

datatype "context" = Caller | Background_timeout nat

text \<open>
  A call is one \<open>exec.CommandContext\<close> that is run: of the \<open>docker\<close> binary with its
  arguments, or of a command of the caller's on the host.
\<close>

datatype call = Docker "context" "string list" | Host "context" string "string list"

record cmd_result =
  run_err :: "error option"
  std_out :: string
  std_err :: string
  exit_code :: int

text \<open>
  The world outside the package: what a call returns after the calls made so far, and
  whether a \<open>select\<close> of a polling loop finds the caller's context done (then with
  \<open>ctx.Err()\<close>) or its ticker's tick. The functions below take the calls made so far and
  return them extended.
\<close>

record world =
  exec :: "call list \<Rightarrow> call \<Rightarrow> cmd_result"
  ctx_done :: "call list \<Rightarrow> error option"

definition run :: "world \<Rightarrow> call \<Rightarrow> call list \<Rightarrow> cmd_result \<times> call list" where
  "run w c h = (exec w h c, h @ [c])"

section \<open>docker.go\<close>

definition actionContainer :: string where "actionContainer = ''container''"
definition actionExec :: string where "actionExec = ''exec''"
definition actionInspect :: string where "actionInspect = ''inspect''"
definition actionPort :: string where "actionPort = ''port''"
definition actionRun :: string where "actionRun = ''run''"
definition actionVolume :: string where "actionVolume = ''volume''"

definition idLength :: nat where "idLength = 12"

definition quoted_line :: "string \<Rightarrow> string" where
  "quoted_line s = CHR 0x27 # s @ [CHR 0x27, LF]"

definition stateCreated :: string where "stateCreated = quoted_line ''created''"
definition stateDead :: string where "stateDead = quoted_line ''dead''"
definition stateExited :: string where "stateExited = quoted_line ''exited''"
definition statePaused :: string where "statePaused = quoted_line ''paused''"
definition stateRestarting :: string where "stateRestarting = quoted_line ''restarting''"
definition stateRunning :: string where "stateRunning = quoted_line ''running''"

subsection \<open>\<open>startContainer\<close>\<close>

definition port_flag :: "uint \<times> uint \<Rightarrow> string list" where
  "port_flag p =
     [''-p'',
      if snd p = 0 then FormatUint (fst p)
      else FormatUint (fst p) @ '':'' @ FormatUint (snd p)]"

definition mount_flag :: "string \<times> string \<Rightarrow> string list" where
  "mount_flag m = [''--mount'', ''type=bind,source='' @ fst m @ '',target='' @ snd m]"

definition run_args ::
  "string \<Rightarrow> string list \<Rightarrow> string list \<Rightarrow> (uint \<times> uint) list \<Rightarrow> (string \<times> string) list
     \<Rightarrow> string list" where
  "run_args imageName arguments envVars exposedPorts mounts =
     [actionRun, ''-d'']
     @ concat (map port_flag exposedPorts)
     @ concat (map (\<lambda>e. [''-e'', e]) envVars)
     @ concat (map mount_flag mounts)
     @ [imageName]
     @ arguments"

text \<open>
  The identifier is the slice \<open>stdOutCapture.String()[:idLength]\<close>, which panics when the
  output has fewer than \<open>idLength\<close> bytes.
\<close>

definition startContainer ::
  "world \<Rightarrow> context \<Rightarrow> string \<Rightarrow> string list \<Rightarrow> string list \<Rightarrow> (uint \<times> uint) list
     \<Rightarrow> (string \<times> string) list \<Rightarrow> call list \<Rightarrow> (error + string) outcome \<times> call list" where
  "startContainer w ctx imageName arguments envVars exposedPorts mounts h =
     (let args = run_args imageName arguments envVars exposedPorts mounts;
          (r, h') = run w (Docker ctx args) h
      in if run_err r \<noteq> None
         then (Returned (Inl (Start_failed (std_out r) (std_err r) args)), h')
         else if length (std_out r) < idLength then (Panics, h')
         else (Returned (Inr (take idLength (std_out r))), h'))"

subsection \<open>\<open>containerIsAlive\<close>\<close>

definition statusTemplate :: string where
  "statusTemplate = CHR 0x27 # ''{{.State.Status}}'' @ [CHR 0x27]"

text \<open>
  The poller inspects the container at every tick of its ticker until it has an outcome to
  report. The fuel is the number of ticks the model follows: \<open>None\<close> is a poller that has
  reported nothing after that many ticks.
\<close>

fun containerIsAlive ::
  "nat \<Rightarrow> world \<Rightarrow> context \<Rightarrow> string \<Rightarrow> call list \<Rightarrow> (error option \<times> call list) option" where
  "containerIsAlive 0 w ctx ident h = None"
| "containerIsAlive (Suc n) w ctx ident h =
     (let (r, h') = run w (Docker ctx [actionInspect, ''-f'', statusTemplate, ident]) h
      in case run_err r of
           Some cErr \<Rightarrow> Some (Some (Joined cErr (Inspect_failed (std_err r))), h')
         | None \<Rightarrow>
             (let state = std_out r
              in if state = stateDead \<or> state = stateExited \<or> state = statePaused
                    \<or> state = stateRestarting
                 then Some (Some (Invalid_state state (std_out r) (std_err r)), h')
                 else if state = stateRunning then Some (None, h')
                 else containerIsAlive n w ctx ident h'))"

subsection \<open>\<open>getPublishedPorts\<close>\<close>

type_synonym portmap = "(uint, string list) mapping"

text \<open>
  The loop over the scanned lines. \<open>err\<close> is the variable \<open>err\<close> of the function, which
  holds the result of \<open>cmd.Run\<close>; \<open>serr\<close> is what \<open>s.Err()\<close> returns once the lines are
  used up. A nil map is \<open>None\<close>. \<open>parts[1]\<close> panics on a line without \<open>" -> "\<close>.
\<close>

fun port_lines ::
  "error option \<Rightarrow> error option \<Rightarrow> portmap \<Rightarrow> string list
     \<Rightarrow> (portmap option \<times> error option) outcome" where
  "port_lines err serr portMappings [] =
     (case serr of Some e \<Rightarrow> Returned (None, Some e) | None \<Rightarrow> Returned (Some portMappings, None))"
| "port_lines err serr portMappings (t # ts) =
     (let parts = Split t '' -> ''
      in case ParseUint (ReplaceAll (parts ! 0) ''/tcp'' []) of
           Inl pErr \<Rightarrow> Returned (None, err)
         | Inr port \<Rightarrow>
             if length parts < 2 then Panics
             else port_lines err serr
                    (Mapping.update port (Mapping.lookup_default [] portMappings port @ [parts ! 1])
                       portMappings)
                    ts)"

definition getPublishedPorts ::
  "world \<Rightarrow> context \<Rightarrow> string \<Rightarrow> call list
     \<Rightarrow> (portmap option \<times> error option) outcome \<times> call list" where
  "getPublishedPorts w ctx ident h =
     (let (r, h') = run w (Docker ctx [actionPort, ident]) h;
          err = run_err r
      in if err \<noteq> None then (Returned (None, Some (Ports_failed (std_err r))), h')
         else case scan_lines [] (std_out r) of
                (ls, serr) \<Rightarrow> (port_lines err serr Mapping.empty ls, h'))"

text \<open>
  The line the runtime prints for a published port, \<open><port>/tcp -> <host>:<hostport>\<close>,
  for the internal port \<open>p\<close> and the host address \<open>a\<close>.
\<close>

definition published_line :: "uint \<Rightarrow> string \<Rightarrow> string" where
  "published_line p a = FormatUint p @ ''/tcp -> '' @ a"

subsection \<open>The other commands\<close>


definition volumesTemplate :: string where
  "volumesTemplate =
     ''{{ range .Mounts }}{{if eq .Type '' @ [CHR 0x22] @ ''volume'' @ [CHR 0x22]
     @ ''}}{{ .Name }}{{'' @ [CHR 0x22, CHR 0x5C, CHR ''n'', CHR 0x22] @ ''}}{{ end }}{{ end }}''"

definition getVolumes ::
  "world \<Rightarrow> context \<Rightarrow> string \<Rightarrow> call list \<Rightarrow> (error + string list) \<times> call list" where
  "getVolumes w ctx ident h =
     (let args = [actionInspect, ''-f'', volumesTemplate, ident];
          (r, h') = run w (Docker ctx args) h
      in if run_err r \<noteq> None then (Inl (Volumes_failed (std_err r) (''docker'' # args)), h')
         else case scan_lines [] (std_out r) of
                (ls, serr) \<Rightarrow>
                  (case serr of
                     Some e \<Rightarrow> (Inl e, h')
                   | None \<Rightarrow> (Inr (filter (\<lambda>t. t \<noteq> []) ls), h')))"

definition deleteVolumes :: "world \<Rightarrow> context \<Rightarrow> string list \<Rightarrow> call list \<Rightarrow> error option \<times> call list" where
  "deleteVolumes w ctx ids h =
     (let (r, h') = run w (Docker ctx ([actionVolume, ''rm''] @ ids)) h
      in if run_err r \<noteq> None then (Some (Delete_volumes_failed (std_err r)), h') else (None, h'))"

definition stopContainer :: "world \<Rightarrow> context \<Rightarrow> string \<Rightarrow> call list \<Rightarrow> error option \<times> call list" where
  "stopContainer w ctx ident h =
     (let (r, h') = run w (Docker ctx [actionContainer, ''stop'', ident]) h
      in if run_err r \<noteq> None then (Some (Stop_failed (std_err r)), h') else (None, h'))"

definition removeContainer :: "world \<Rightarrow> context \<Rightarrow> string \<Rightarrow> call list \<Rightarrow> error option \<times> call list" where
  "removeContainer w ctx ident h =
     (let (r, h') = run w (Docker ctx [actionContainer, ''remove'', ident]) h
      in if run_err r \<noteq> None then (Some (Remove_failed (std_err r)), h') else (None, h'))"

definition dockerExecute ::
  "world \<Rightarrow> context \<Rightarrow> string \<Rightarrow> string list \<Rightarrow> call list \<Rightarrow> cmd_result outcome \<times> call list" where
  "dockerExecute w ctx ident command h =
     (let (r, h') = run w (Docker ctx ([actionExec, ident] @ command)) h in (Returned r, h'))"

text \<open>\<open>hostExecute\<close> (doc.go) reads \<open>command[0]\<close>, which panics on an empty command.\<close>

definition hostExecute ::
  "world \<Rightarrow> context \<Rightarrow> string list \<Rightarrow> call list \<Rightarrow> cmd_result outcome \<times> call list" where
  "hostExecute w ctx command h =
     (case command of
        [] \<Rightarrow> (Panics, h)
      | c # cs \<Rightarrow> (let (r, h') = run w (Host ctx c cs) h in (Returned r, h')))"

section \<open>The options\<close>

text \<open>A pointer field of the configuration is an option: \<open>None\<close> is nil.\<close>

record containerCfg =
  args :: "string list option"
  env :: "string list option"
  mounts :: "(string \<times> string) list option"
  ports :: "(uint \<times> uint) list option"

record waitCfg =
  inContainer :: "bool option"

type_synonym ContainerOption = "containerCfg \<Rightarrow> containerCfg"
type_synonym WaitOption = "waitCfg \<Rightarrow> waitCfg"

definition deref :: "'a list option \<Rightarrow> 'a list" where
  "deref p = (case p of None \<Rightarrow> [] | Some xs \<Rightarrow> xs)"

definition WithCmd :: "string list \<Rightarrow> ContainerOption" where
  "WithCmd arguments cfg = cfg\<lparr>args := Some (deref (args cfg) @ arguments)\<rparr>"

definition WithEnvVar :: "(string \<Rightarrow> string) \<Rightarrow> string \<Rightarrow> string \<Rightarrow> ContainerOption" where
  "WithEnvVar umap key val cfg = cfg\<lparr>env := Some (deref (env cfg) @ [ToUpper umap key @ ''='' @ val])\<rparr>"

definition WithPort :: "uint \<Rightarrow> uint \<Rightarrow> ContainerOption" where
  "WithPort port target cfg = cfg\<lparr>ports := Some (deref (ports cfg) @ [(port, target)])\<rparr>"

definition WithRandomPort :: "uint \<Rightarrow> ContainerOption" where
  "WithRandomPort port = WithPort port 0"

definition WithExecuteInsideContainer :: "bool \<Rightarrow> WaitOption" where
  "WithExecuteInsideContainer b cfg = cfg\<lparr>inContainer := Some b\<rparr>"

section \<open>The container handle\<close>

record Container =
  cid :: string
  portMappings :: portmap

subsection \<open>\<open>Stop\<close>\<close>

definition Stop :: "world \<Rightarrow> context \<Rightarrow> Container \<Rightarrow> call list \<Rightarrow> error option \<times> call list" where
  "Stop w ctx c h =
     (case stopContainer w ctx (cid c) h of
        (Some err, h1) \<Rightarrow> (Some err, h1)
      | (None, h1) \<Rightarrow>
          (case getVolumes w ctx (cid c) h1 of
             (Inl err, h2) \<Rightarrow> (Some err, h2)
           | (Inr ids, h2) \<Rightarrow>
               (case removeContainer w ctx (cid c) h2 of
                  (Some err, h3) \<Rightarrow> (Some err, h3)
                | (None, h3) \<Rightarrow> if length ids = 0 then (None, h3) else deleteVolumes w ctx ids h3)))"

subsection \<open>\<open>ExposedPorts\<close> and \<open>ExposedPortAddresses\<close>\<close>

text \<open>
  The loop of \<open>ExposedPorts\<close> over the addresses of a port: \<open>parts[1]\<close> panics on an address
  without \<open>":"\<close>. A nil slice is \<open>None\<close>.
\<close>

fun host_ports :: "uint list \<Rightarrow> string list \<Rightarrow> (uint list option \<times> bool) outcome" where
  "host_ports p [] = Returned (Some p, True)"
| "host_ports p (s # strs) =
     (let parts = Split s '':''
      in if length parts < 2 then Panics
         else case ParseUint (parts ! 1) of
                Inl err \<Rightarrow> Returned (None, False)
              | Inr v \<Rightarrow> host_ports (p @ [v]) strs)"

definition ExposedPorts :: "Container \<Rightarrow> uint \<Rightarrow> (uint list option \<times> bool) outcome" where
  "ExposedPorts c port =
     (case Mapping.lookup (portMappings c) port of
        None \<Rightarrow> Returned (None, False)
      | Some strs \<Rightarrow> host_ports [] strs)"

definition ExposedPortAddresses :: "Container \<Rightarrow> uint \<Rightarrow> string list option \<times> bool" where
  "ExposedPortAddresses c port =
     (case Mapping.lookup (portMappings c) port of
        None \<Rightarrow> (None, False)
      | Some str \<Rightarrow> (Some str, True))"

subsection \<open>\<open>WaitCmd\<close>\<close>

text \<open>
  One round of the loop is one \<open>select\<close>: the context is done, or the ticker ticks and the
  probe is run. The fuel is the number of rounds the model follows. A panic of the adapter
  is a panic of the program.
\<close>

fun wait_loop ::
  "nat \<Rightarrow> world \<Rightarrow> context \<Rightarrow> Container \<Rightarrow> string list \<Rightarrow> (string \<Rightarrow> string \<Rightarrow> int \<Rightarrow> bool)
     \<Rightarrow> bool \<Rightarrow> call list \<Rightarrow> (error option outcome \<times> call list) option" where
  "wait_loop 0 w ctx c cmd metCondition inCtr h = None"
| "wait_loop (Suc n) w ctx c cmd metCondition inCtr h =
     (case ctx_done w h of
        Some e \<Rightarrow> Some (Returned (Some e), h)
      | None \<Rightarrow>
          (case (if inCtr then dockerExecute w ctx (cid c) cmd h else hostExecute w ctx cmd h) of
             (Panics, h') \<Rightarrow> Some (Panics, h')
           | (Returned r, h') \<Rightarrow>
               if run_err r \<noteq> None \<and> exit_code r = - 1
               then Some (Returned (Some (Wait_failed (the (run_err r)) (std_err r) (std_out r))), h')
               else if \<not> metCondition (std_out r) (std_err r) (exit_code r)
               then wait_loop n w ctx c cmd metCondition inCtr h'
               else Some (Returned None, h')))"

text \<open>The argument of the goroutine: \<open>cfg.inContainer != nil && *cfg.inContainer\<close>.\<close>

definition probe_in_container :: "WaitOption list \<Rightarrow> bool" where
  "probe_in_container opts =
     (let cfg = fold (\<lambda>opt cfg. opt cfg) opts \<lparr>inContainer = None\<rparr>
      in case inContainer cfg of None \<Rightarrow> False | Some b \<Rightarrow> b)"

definition WaitCmd ::
  "nat \<Rightarrow> world \<Rightarrow> context \<Rightarrow> Container \<Rightarrow> string list \<Rightarrow> (string \<Rightarrow> string \<Rightarrow> int \<Rightarrow> bool)
     \<Rightarrow> WaitOption list \<Rightarrow> call list \<Rightarrow> (error option outcome \<times> call list) option" where
  "WaitCmd n w ctx c cmd metCondition opts h =
     wait_loop n w ctx c cmd metCondition (probe_in_container opts) h"

subsection \<open>\<open>newContainer\<close>\<close>

text \<open>
  The port discovery loop of \<open>newContainer\<close>: one round is one \<open>select\<close>, and a nil or
  empty mapping of a tick goes to the next round.
\<close>

fun discover_ports ::
  "nat \<Rightarrow> world \<Rightarrow> context \<Rightarrow> string \<Rightarrow> call list
     \<Rightarrow> ((error + portmap) outcome \<times> call list) option" where
  "discover_ports 0 w ctx ident h = None"
| "discover_ports (Suc n) w ctx ident h =
     (case ctx_done w h of
        Some e \<Rightarrow> Some (Returned (Inl e), h)
      | None \<Rightarrow>
          (case getPublishedPorts w ctx ident h of
             (Panics, h') \<Rightarrow> Some (Panics, h')
           | (Returned (pm, Some pErr), h') \<Rightarrow> Some (Returned (Inl pErr), h')
           | (Returned (None, None), h') \<Rightarrow> discover_ports n w ctx ident h'
           | (Returned (Some pm, None), h') \<Rightarrow>
               if Mapping.is_empty pm then discover_ports n w ctx ident h'
               else Some (Returned (Inr pm), h')))"




section \<open>Worlds for the examples\<close>

definition succeeded :: "string \<Rightarrow> cmd_result" where
  "succeeded out = \<lparr>run_err = None, std_out = out, std_err = [], exit_code = 0\<rparr>"

definition failed :: "string \<Rightarrow> int \<Rightarrow> cmd_result" where
  "failed msg code =
     \<lparr>run_err = Some (Run_error ''exit status''), std_out = [], std_err = msg, exit_code = code\<rparr>"

text \<open>A world where every command succeeds and prints the same text.\<close>

definition world_prints :: "string \<Rightarrow> world" where
  "world_prints out = \<lparr>exec = (\<lambda>h c. succeeded out), ctx_done = (\<lambda>h. None)\<rparr>"

text \<open>A world where every command fails, as for a container that is no longer there.\<close>

definition world_gone :: "int \<Rightarrow> world" where
  "world_gone code = \<lparr>exec = (\<lambda>h c. failed ''No such container'' code), ctx_done = (\<lambda>h. None)\<rparr>"

text \<open>
  A world where \<open>docker run\<close> prints an identifier, the container is then found in the
  given state, its logs are \<open>boom\<close>, and every other command succeeds printing nothing.
\<close>

definition world_started :: "string \<Rightarrow> world" where
  "world_started state =
     \<lparr>exec = (\<lambda>h c. case c of
                Docker ctx (a # as) \<Rightarrow>
                  if a = actionRun then succeeded (''0123456789abcdef'' @ [LF])
                  else if a = actionInspect \<and> length as = 3 \<and> as ! 1 = statusTemplate
                  then succeeded state
                  else if a = ''logs'' then succeeded ''boom''
                  else succeeded []
              | _ \<Rightarrow> succeeded []),
      ctx_done = (\<lambda>h. None)\<rparr>"

text \<open>
  A world where every command succeeds, and the inspection of the mounts prints two
  volume names with an empty line between them.
\<close>

definition world_volumes :: world where
  "world_volumes =
     \<lparr>exec = (\<lambda>h c. case c of
                Docker ctx (a # as) \<Rightarrow>
                  if a = actionInspect then succeeded (''vol1'' @ [LF, LF] @ ''vol2'' @ [LF])
                  else succeeded []
              | _ \<Rightarrow> succeeded []),
      ctx_done = (\<lambda>h. None)\<rparr>"

text \<open>
  A world where every command succeeds and prints three published lines, two of them for
  the port 80.
\<close>

definition published_example :: "(uint \<times> string) list" where
  "published_example = [(80, ''0.0.0.0:49155''), (80, ''[::]:49155''), (443, ''0.0.0.0:49156'')]"

definition world_published :: world where
  "world_published =
     world_prints (concat (map (\<lambda>(p, a). published_line p a @ [LF]) published_example))"

text \<open>
  A world where every command succeeds and prints the same text, and where the caller's
  context is found done, its deadline exceeded, once a command has been run.
\<close>

definition world_cancelled_after :: "string \<Rightarrow> world" where
  "world_cancelled_after out =
     \<lparr>exec = (\<lambda>h c. succeeded out),
      ctx_done = (\<lambda>h. if h = [] then None else Some (Ctx_error ''context deadline exceeded''))\<rparr>"

section \<open>Properties of the library functions\<close>

lemma digit_char_eval:
  "digit_char 0 = CHR ''0''" "digit_char 1 = CHR ''1''" "digit_char 2 = CHR ''2''"
  "digit_char 3 = CHR ''3''" "digit_char 4 = CHR ''4''" "digit_char 5 = CHR ''5''"
  "digit_char 6 = CHR ''6''" "digit_char 7 = CHR ''7''" "digit_char 8 = CHR ''8''"
  "digit_char 9 = CHR ''9''"
  by (simp_all add: digit_char_def char_of_def)

lemmas const_defs =
  actionContainer_def actionExec_def actionInspect_def actionPort_def actionRun_def
  actionVolume_def idLength_def quoted_line_def stateCreated_def stateDead_def stateExited_def
  statePaused_def stateRestarting_def stateRunning_def LF_def CR_def statusTemplate_def

lemmas world_defs =
  succeeded_def failed_def world_prints_def world_gone_def world_started_def
  world_volumes_def world_cancelled_after_def run_def

subsection \<open>Decimal numbers\<close>

lemma digit_char_props:
  assumes "0 \<le> d" "d < 10"
  shows "is_digit (digit_char d)" "digit_val (digit_char d) = d"
  using assms by (simp_all add: is_digit_def digit_val_def digit_char_def)

lemma format_int_not_empty: "format_int n \<noteq> []"
  by (subst format_int.simps) simp

lemma format_int_digits: "0 \<le> n \<Longrightarrow> c \<in> set (format_int n) \<Longrightarrow> is_digit c"
proof (induction n rule: format_int.induct)
  case (1 n)
  show ?case
  proof (cases "n < 10")
    case True
    with "1.prems" show ?thesis
      by (subst (asm) format_int.simps) (simp add: digit_char_props)
  next
    case False
    with "1.prems" have "c \<in> set (format_int (n div 10)) \<or> c = digit_char (n mod 10)"
      by (subst (asm) format_int.simps) auto
    then show ?thesis
    proof
      assume "c \<in> set (format_int (n div 10))"
      with "1.IH" False "1.prems" show ?thesis by simp
    next
      assume "c = digit_char (n mod 10)"
      then show ?thesis by (simp add: digit_char_props)
    qed
  qed
qed

lemma parse_digits_snoc:
  "parse_digits a (s @ [c]) =
     (case parse_digits a s of
        Inl e \<Rightarrow> Inl e
      | Inr v \<Rightarrow>
          if \<not> is_digit c then Inl ErrSyntax
          else if v * 10 + digit_val c > maxUint64 then Inl ErrRange
          else Inr (v * 10 + digit_val c))"
  by (induction s arbitrary: a) simp_all

lemma parse_digits_format_int:
  "0 \<le> n \<Longrightarrow> n \<le> maxUint64 \<Longrightarrow> parse_digits 0 (format_int n) = Inr n"
proof (induction n rule: format_int.induct)
  case (1 n)
  show ?case
  proof (cases "n < 10")
    case True
    with "1.prems" show ?thesis
      by (subst format_int.simps) (simp add: digit_char_props)
  next
    case False
    with "1.prems" have "parse_digits 0 (format_int (n div 10)) = Inr (n div 10)"
      by (intro "1.IH") simp_all
    with False "1.prems" show ?thesis
      by (subst format_int.simps) (simp add: parse_digits_snoc digit_char_props)
  qed
qed

lemma ParseUint_FormatUint: "ParseUint (FormatUint p) = Inr p"
proof -
  have "uint p \<le> maxUint64"
    using uint_bounded [of p] by (simp add: maxUint64_def)
  then show ?thesis
    by (simp add: ParseUint_def FormatUint_def format_int_not_empty parse_digits_format_int)
qed

lemma FormatUint_chars:
  "c \<in> set (FormatUint p) \<Longrightarrow> is_digit c"
  by (auto simp add: FormatUint_def intro: format_int_digits)

lemma not_digit: "\<not> is_digit (CHR '' '')" "\<not> is_digit (CHR ''/'')" "\<not> is_digit LF" "\<not> is_digit CR"  "\<not> is_digit (CHR '':'')"
  by (simp_all add: is_digit_def LF_def CR_def)

subsection \<open>Splitting and replacing\<close>

lemma split_from_skip:
  "s0 \<notin> set x \<Longrightarrow> split_from (s0 # sep) cur (x @ rest) = split_from (s0 # sep) (cur @ x) rest"
  by (induction x arbitrary: cur) simp_all

lemma split_from_match:
  "split_from (s0 # sep) cur ((s0 # sep) @ rest) = cur # split_from (s0 # sep) [] rest"
  by simp

lemma Split_once:
  assumes "s0 \<notin> set x" "s0 \<notin> set y"
  shows "Split (x @ (s0 # sep) @ y) (s0 # sep) = [x, y]"
proof -
  have "split_from (s0 # sep) [] (x @ (s0 # sep) @ y) = split_from (s0 # sep) x ((s0 # sep) @ y)"
    using split_from_skip [OF assms(1), of sep "[]" "(s0 # sep) @ y"] by simp
  also have "\<dots> = x # split_from (s0 # sep) [] y"
    by (rule split_from_match)
  also have "split_from (s0 # sep) [] y = [y]"
    using split_from_skip [OF assms(2), of sep "[]" "[]"] by simp
  finally show ?thesis
    by (simp add: Split_def)
qed

lemma replace_from_skip:
  "o0 \<notin> set x \<Longrightarrow> replace_from (o0 # old) new (x @ rest) = x @ replace_from (o0 # old) new rest"
  by (induction x) simp_all

lemma ReplaceAll_suffix:
  assumes "o0 \<notin> set x"
  shows "ReplaceAll (x @ (o0 # old)) (o0 # old) [] = x"
  using replace_from_skip [OF assms, of old "[]" "o0 # old"]
  by (simp add: ReplaceAll_def)

subsection \<open>Scanning lines\<close>

lemma dropCR_id: "CR \<notin> set l \<Longrightarrow> dropCR l = l"
  by (cases l rule: rev_cases) (auto simp add: dropCR_def)

lemma scan_lines_line:
  "LF \<notin> set l \<Longrightarrow> length (cur @ l) < MaxScanTokenSize \<Longrightarrow>
   scan_lines cur (l @ LF # rest) =
     (case scan_lines [] rest of (ls, e) \<Rightarrow> (dropCR (cur @ l) # ls, e))"
  by (induction l arbitrary: cur) auto

lemma scan_lines_all:
  "\<forall>l \<in> set ls. LF \<notin> set l \<and> CR \<notin> set l \<and> length l < MaxScanTokenSize \<Longrightarrow>
   scan_lines [] (concat (map (\<lambda>l. l @ [LF]) ls)) = (ls, None)"
proof (induction ls)
  case Nil
  then show ?case by simp
next
  case (Cons l ls)
  then show ?case
    using scan_lines_line [of l "[]" "concat (map (\<lambda>l. l @ [LF]) ls)"]
    by (simp add: dropCR_id)
qed


section \<open>Properties of \<open>startContainer\<close>\<close>

lemma port_flag_random: "port_flag (p, 0) = [''-p'', FormatUint p]"
  by (simp add: port_flag_def)

lemma port_flag_fixed:
  "t \<noteq> 0 \<Longrightarrow> port_flag (p, t) = [''-p'', FormatUint p @ '':'' @ FormatUint t]"
  by (simp add: port_flag_def)

lemma length_port_flags: "length (concat (map port_flag ps)) = 2 * length ps"
  by (induction ps) (simp_all add: port_flag_def)

text \<open>
  C1. \<open>startContainer\<close> renders one \<open>-p\<close> flag for a port pair. For a pair with a host port
  the value is the internal port, a colon, and then the host port: the option
  \<open>WithPort 80 8080\<close>, which asks for the internal port 80 on the host port 8080, is
  rendered \<open>80:8080\<close>, where the runtime reads \<open>host:internal\<close> and the claim says
  \<open>8080:80\<close>.
\<close>

theorem startContainer_renders_internal_before_host:
  "snd (startContainer w ctx imageName [] [] (deref (ports (WithPort 80 8080 cfg))) [] [])
     = [Docker ctx ([''run'', ''-d'']
          @ concat (map port_flag (deref (ports cfg))) @ [''-p'', ''80:8080'', imageName])]"
  by (simp add: startContainer_def run_args_def run_def WithPort_def deref_def port_flag_def
      FormatUint_def format_int.simps digit_char_eval const_defs Let_def
      split: prod.splits option.splits)

text \<open>
  C6, as the code has it. When the start command succeeds, \<open>startContainer\<close> returns the
  first 12 bytes of the captured standard output, untrimmed and unchecked, if the output
  has at least 12 bytes; on a shorter output the slice expression panics and nothing is
  returned.
\<close>

theorem startContainer_id:
  "run_err (exec w h (Docker ctx (run_args imageName arguments envVars exposedPorts mnts))) = None \<Longrightarrow>
   startContainer w ctx imageName arguments envVars exposedPorts mnts h =
     (let call = Docker ctx (run_args imageName arguments envVars exposedPorts mnts);
          out = std_out (exec w h call)
      in (if length out < 12 then Panics else Returned (Inr (take 12 out)), h @ [call]))"
  by (simp add: startContainer_def run_def Let_def idLength_def)

theorem startContainer_id_witness:
  "run_err (exec (world_prints (''0123456789abcdef'' @ [LF])) []
      (Docker Caller (run_args ''img'' [] [] [] []))) = None
   \<and> startContainer (world_prints (''0123456789abcdef'' @ [LF])) Caller ''img'' [] [] [] [] []
       = (Returned (Inr ''0123456789ab''), [Docker Caller [''run'', ''-d'', ''img'']])"
  using startContainer_id
    [of "world_prints (''0123456789abcdef'' @ [LF])" "[]" Caller "''img''" "[]" "[]" "[]" "[]"]
  by (simp add: world_defs run_args_def const_defs Let_def)

text \<open>
  C6, as the claim has it, fails where the start command succeeds and prints fewer than 12
  bytes: the call panics instead of returning the first 12 bytes.
\<close>

theorem startContainer_short_output_panics:
  "run_err (exec (world_prints ''abc'') [] (Docker Caller (run_args ''img'' [] [] [] []))) = None
   \<and> fst (startContainer (world_prints ''abc'') Caller ''img'' [] [] [] [] []) = Panics
   \<and> fst (startContainer (world_prints ''abc'') Caller ''img'' [] [] [] [] [])
       \<noteq> Returned (Inr (take 12 (std_out (exec (world_prints ''abc'') []
             (Docker Caller (run_args ''img'' [] [] [] []))))))"
  by (simp add: startContainer_def world_defs run_args_def const_defs Let_def)

section \<open>Properties of the options\<close>

lemma ToUpper_ascii:
  "list_all (\<lambda>c. (of_char c :: int) < 128) s \<Longrightarrow> ToUpper umap s = map upper_ascii s"
  by (simp add: ToUpper_def)

lemma ToUpper_intent: "ToUpper umap ''intent'' = ''INTENT''"
  by (simp add: ToUpper_def upper_ascii_def char_of_def)

text \<open>
  C10. \<open>WithEnvVar key value\<close> appends the entry \<open>strings.ToUpper(key) + "=" + value\<close> to
  the environment and changes nothing else of the configuration: the key is uppercased,
  the value is kept as it is, as for the key \<open>intent\<close> and the value \<open>prod\<close>.
\<close>

theorem WithEnvVar_appends_uppercased_key:
  "env (WithEnvVar umap key val cfg) = Some (deref (env cfg) @ [ToUpper umap key @ ''='' @ val])
   \<and> WithEnvVar umap key val cfg = cfg\<lparr>env := env (WithEnvVar umap key val cfg)\<rparr>
   \<and> env (WithEnvVar umap ''intent'' ''prod'' cfg) = Some (deref (env cfg) @ [''INTENT=prod''])"
  by (simp add: WithEnvVar_def ToUpper_intent)

section \<open>Properties of the liveness poller\<close>

lemma states_distinct:
  "stateRunning \<noteq> stateDead" "stateRunning \<noteq> stateExited" "stateRunning \<noteq> statePaused"
  "stateRunning \<noteq> stateRestarting" "stateCreated \<noteq> stateDead" "stateCreated \<noteq> stateExited"
  "stateCreated \<noteq> statePaused" "stateCreated \<noteq> stateRestarting" "stateCreated \<noteq> stateRunning"
  by (simp_all add: const_defs)

text \<open>
  C2. At a tick whose inspection succeeds, the status printed decides the poller: one of
  the four statuses dead, exited, paused and restarting reports the error that carries the
  raw status string, the status running reports success, and any other text goes to the
  next tick. A tick reports success for the status running only, and the status created
  is none of the five.
\<close>

theorem containerIsAlive_tick:
  "run_err (exec w h (Docker ctx [''inspect'', ''-f'', statusTemplate, ident])) = None \<Longrightarrow>
   (let call = Docker ctx [''inspect'', ''-f'', statusTemplate, ident];
        r = exec w h call;
        state = std_out r
    in containerIsAlive (Suc n) w ctx ident h =
         (if state \<in> {stateDead, stateExited, statePaused, stateRestarting}
          then Some (Some (Invalid_state state (std_out r) (std_err r)), h @ [call])
          else if state = stateRunning then Some (None, h @ [call])
          else containerIsAlive n w ctx ident (h @ [call]))
       \<and> (containerIsAlive (Suc 0) w ctx ident h = Some (None, h @ [call])) = (state = stateRunning)
       \<and> stateCreated \<notin> {stateDead, stateExited, statePaused, stateRestarting, stateRunning})"
  by (auto simp add: Let_def run_def actionInspect_def states_distinct)

theorem containerIsAlive_tick_witness:
  "run_err (exec (world_prints stateExited) []
      (Docker Caller [''inspect'', ''-f'', statusTemplate, ''0123456789ab''])) = None
   \<and> containerIsAlive (Suc 0) (world_prints stateExited) Caller ''0123456789ab'' []
       = Some (Some (Invalid_state stateExited stateExited []),
               [Docker Caller [''inspect'', ''-f'', statusTemplate, ''0123456789ab'']])"
  using containerIsAlive_tick [of "world_prints stateExited" "[]" Caller "''0123456789ab''" 0]
  by (simp add: world_defs Let_def)

section \<open>Properties of \<open>Stop\<close>\<close>

lemma stopContainer_eq:
  "stopContainer w ctx i h =
     (let c1 = Docker ctx [''container'', ''stop'', i]; r = exec w h c1
      in (if run_err r \<noteq> None then Some (Stop_failed (std_err r)) else None, h @ [c1]))"
  by (simp add: stopContainer_def run_def Let_def const_defs)

lemma removeContainer_eq:
  "removeContainer w ctx i h =
     (let c3 = Docker ctx [''container'', ''remove'', i]; r = exec w h c3
      in (if run_err r \<noteq> None then Some (Remove_failed (std_err r)) else None, h @ [c3]))"
  by (simp add: removeContainer_def run_def Let_def const_defs)

lemma deleteVolumes_eq:
  "deleteVolumes w ctx ids h =
     (let c4 = Docker ctx ([''volume'', ''rm''] @ ids); r = exec w h c4
      in (if run_err r \<noteq> None then Some (Delete_volumes_failed (std_err r)) else None, h @ [c4]))"
  by (simp add: deleteVolumes_def run_def Let_def const_defs)

lemma snd_getVolumes:
  "snd (getVolumes w ctx i h) = h @ [Docker ctx [''inspect'', ''-f'', volumesTemplate, i]]"
  by (simp add: getVolumes_def run_def Let_def const_defs split: prod.splits option.splits)

text \<open>
  C3. \<open>Stop\<close> runs, in this order, the stop of the container, the inspection that lists
  its volumes, the removal of the container and, if a volume was listed, one removal of
  all the volumes listed. The calls made are exactly those up to the first one that
  fails, whose error is returned: after a failed stop no other command is run.
\<close>

theorem Stop_sequence:
  "(let c1 = Docker ctx [''container'', ''stop'', cid c];
        c2 = Docker ctx [''inspect'', ''-f'', volumesTemplate, cid c];
        c3 = Docker ctx [''container'', ''remove'', cid c];
        r1 = exec w h c1;
        r3 = exec w (h @ [c1, c2]) c3
    in Stop w ctx c h =
         (if run_err r1 \<noteq> None then (Some (Stop_failed (std_err r1)), h @ [c1])
          else case fst (getVolumes w ctx (cid c) (h @ [c1])) of
                 Inl err \<Rightarrow> (Some err, h @ [c1, c2])
               | Inr ids \<Rightarrow>
                   if run_err r3 \<noteq> None then (Some (Remove_failed (std_err r3)), h @ [c1, c2, c3])
                   else if ids = [] then (None, h @ [c1, c2, c3])
                   else (let c4 = Docker ctx ([''volume'', ''rm''] @ ids);
                             r4 = exec w (h @ [c1, c2, c3]) c4
                         in (if run_err r4 \<noteq> None then Some (Delete_volumes_failed (std_err r4))
                             else None,
                             h @ [c1, c2, c3, c4]))))"
proof -
  obtain v h2 where gv:
    "getVolumes w ctx (cid c) (h @ [Docker ctx [''container'', ''stop'', cid c]]) = (v, h2)"
    by (cases "getVolumes w ctx (cid c) (h @ [Docker ctx [''container'', ''stop'', cid c]])")
  have h2: "h2 = h @ [Docker ctx [''container'', ''stop'', cid c],
                      Docker ctx [''inspect'', ''-f'', volumesTemplate, cid c]]"
    using snd_getVolumes [of w ctx "cid c" "h @ [Docker ctx [''container'', ''stop'', cid c]]"] gv
    by simp
  show ?thesis
    by (cases v)
       (simp_all add: Stop_def stopContainer_eq removeContainer_eq deleteVolumes_eq gv h2 Let_def)
qed

theorem Stop_gone_witness:
  "Stop (world_gone 1) Caller \<lparr>cid = ''0123456789ab'', portMappings = Mapping.empty\<rparr> []
     = (Some (Stop_failed ''No such container''),
        [Docker Caller [''container'', ''stop'', ''0123456789ab'']])"
  using Stop_sequence
    [of Caller "\<lparr>cid = ''0123456789ab'', portMappings = Mapping.empty\<rparr>" "world_gone 1" "[]"]
  by (simp add: world_defs Let_def)

text \<open>With two volumes listed, the fourth call removes both, and the empty line is no volume.\<close>

lemma getVolumes_example:
  "getVolumes world_volumes ctx ''0123456789ab'' h
     = (Inr [''vol1'', ''vol2''], h @ [Docker ctx [''inspect'', ''-f'', volumesTemplate, ''0123456789ab'']])"
  by (simp add: getVolumes_def world_defs actionInspect_def LF_def CR_def dropCR_def
      MaxScanTokenSize_def Let_def)

lemma Stop_volumes_example:
  "Stop world_volumes Caller \<lparr>cid = ''0123456789ab'', portMappings = Mapping.empty\<rparr> []
     = (None,
        [Docker Caller [''container'', ''stop'', ''0123456789ab''],
         Docker Caller [''inspect'', ''-f'', volumesTemplate, ''0123456789ab''],
         Docker Caller [''container'', ''remove'', ''0123456789ab''],
         Docker Caller [''volume'', ''rm'', ''vol1'', ''vol2'']])"
  by (simp add: Stop_def stopContainer_eq removeContainer_eq deleteVolumes_eq getVolumes_example Let_def)
     (simp add: world_defs)

section \<open>Properties of \<open>WaitCmd\<close>\<close>

text \<open>
  C4. At a tick where the adapter returns, \<open>WaitCmd\<close> fails at once, with the adapter's error
  and output, if the adapter returned an error together with the exit code -1; otherwise
  it evaluates the predicate, also when the adapter returned an error, returns nil when the
  predicate holds and goes to the next tick when it does not. A tick ends the wait with an
  error in the first case only.
\<close>

theorem WaitCmd_tick:
  "ctx_done w h = None \<Longrightarrow>
   (if probe_in_container opts then dockerExecute w ctx (cid c) cmd h else hostExecute w ctx cmd h)
     = (Returned r, h') \<Longrightarrow>
   WaitCmd (Suc n) w ctx c cmd metCondition opts h =
     (if run_err r \<noteq> None \<and> exit_code r = - 1
      then Some (Returned (Some (Wait_failed (the (run_err r)) (std_err r) (std_out r))), h')
      else if metCondition (std_out r) (std_err r) (exit_code r) then Some (Returned None, h')
      else WaitCmd n w ctx c cmd metCondition opts h')
   \<and> ((\<exists>e. WaitCmd (Suc 0) w ctx c cmd metCondition opts h = Some (Returned (Some e), h'))
        = (run_err r \<noteq> None \<and> exit_code r = - 1))"
  by (auto simp add: WaitCmd_def Let_def)

theorem WaitCmd_tick_witness:
  "ctx_done (world_gone (- 1)) [] = None
   \<and> hostExecute (world_gone (- 1)) Caller [''mongosh'', ''--quiet''] []
       = (Returned (failed ''No such container'' (- 1)), [Host Caller ''mongosh'' [''--quiet'']])
   \<and> WaitCmd (Suc 0) (world_gone (- 1)) Caller
        \<lparr>cid = ''0123456789ab'', portMappings = Mapping.empty\<rparr> [''mongosh'', ''--quiet'']
        (\<lambda>out err code. code = 0) [] []
       = Some (Returned (Some (Wait_failed (Run_error ''exit status'') ''No such container'' [])),
               [Host Caller ''mongosh'' [''--quiet'']])"
  using WaitCmd_tick [of "world_gone (- 1)" "[]" "[]" Caller
      "\<lparr>cid = ''0123456789ab'', portMappings = Mapping.empty\<rparr>" "[''mongosh'', ''--quiet'']"
      "failed ''No such container'' (- 1)" "[Host Caller ''mongosh'' [''--quiet'']]" 0
      "\<lambda>out err code. code = 0"]
  by (simp add: world_defs hostExecute_def probe_in_container_def)

section \<open>Properties of \<open>newContainer\<close>\<close>




lemma discover_ports_cancelled:
  "ctx_done w h = Some e \<Longrightarrow> discover_ports (Suc n) w ctx ident h = Some (Returned (Inl e), h)"
  by simp





section \<open>Properties of the port queries\<close>

lemma ExposedPorts_absent:
  "Mapping.lookup (portMappings c) port = None \<Longrightarrow> ExposedPorts c port = Returned (None, False)"
  by (simp add: ExposedPorts_def)

lemma ExposedPorts_empty:
  "ExposedPorts \<lparr>cid = i, portMappings = Mapping.empty\<rparr> port = Returned (None, False)"
  by (simp add: ExposedPorts_def)

lemma FormatUint_no_space: "CHR '' '' \<notin> set (FormatUint p)"
  using FormatUint_chars [of "CHR '' ''" p] by (auto simp add: not_digit)

lemma FormatUint_no_slash: "CHR ''/'' \<notin> set (FormatUint p)"
  using FormatUint_chars [of "CHR ''/''" p] by (auto simp add: not_digit)

lemma FormatUint_no_LF: "LF \<notin> set (FormatUint p)"
  using FormatUint_chars [of LF p] by (auto simp add: not_digit)

lemma FormatUint_no_CR: "CR \<notin> set (FormatUint p)"
  using FormatUint_chars [of CR p] by (auto simp add: not_digit)

lemma arrow_clean: "LF \<notin> set ''/tcp -> ''" "CR \<notin> set ''/tcp -> ''"
  by (simp_all add: LF_def CR_def)

lemma published_line_clean:
  "LF \<notin> set a \<Longrightarrow> LF \<notin> set (published_line p a)"
  "CR \<notin> set a \<Longrightarrow> CR \<notin> set (published_line p a)"
  using arrow_clean by (simp_all add: published_line_def FormatUint_no_LF FormatUint_no_CR)

lemma published_line_parts:
  assumes "CHR '' '' \<notin> set a"
  shows "Split (published_line p a) '' -> '' = [FormatUint p @ ''/tcp'', a]"
  using Split_once [of "CHR '' ''" "FormatUint p @ ''/tcp''" a "''-> ''"] assms
  by (simp add: FormatUint_no_space published_line_def)

lemma published_line_port:
  "ParseUint (ReplaceAll (FormatUint p @ ''/tcp'') ''/tcp'' []) = Inr p"
  using ReplaceAll_suffix [of "CHR ''/''" "FormatUint p" "''tcp''"]
  by (simp add: FormatUint_no_slash ParseUint_FormatUint)

lemma port_lines_published:
  assumes "\<forall>(p, a) \<in> set pubs. CHR '' '' \<notin> set a"
  shows "\<exists>m'. port_lines err None m (map (\<lambda>(p, a). published_line p a) pubs)
                 = Returned (Some m', None)
              \<and> (\<forall>q. Mapping.lookup m' q =
                        (if q \<in> fst ` set pubs
                         then Some (Mapping.lookup_default [] m q
                                      @ map snd (filter (\<lambda>x. fst x = q) pubs))
                         else Mapping.lookup m q))"
  using assms
proof (induction pubs arbitrary: m)
  case Nil
  then show ?case by simp
next
  case (Cons x pubs)
  obtain p a where x: "x = (p, a)"
    by (cases x)
  let ?m1 = "Mapping.update p (Mapping.lookup_default [] m p @ [a]) m"
  from Cons.prems x have a: "CHR '' '' \<notin> set a" and rest: "\<forall>(p, a) \<in> set pubs. CHR '' '' \<notin> set a"
    by simp_all
  from Cons.IH [OF rest, of ?m1] obtain m'
    where run: "port_lines err None ?m1 (map (\<lambda>(p, a). published_line p a) pubs)
                  = Returned (Some m', None)"
      and look: "\<And>q. Mapping.lookup m' q =
                        (if q \<in> fst ` set pubs
                         then Some (Mapping.lookup_default [] ?m1 q
                                      @ map snd (filter (\<lambda>x. fst x = q) pubs))
                         else Mapping.lookup ?m1 q)"
    by blast
  have "port_lines err None m (map (\<lambda>(p, a). published_line p a) (x # pubs))
          = Returned (Some m', None)"
    using run a by (simp add: x published_line_parts published_line_port Let_def)
  moreover have "Mapping.lookup m' q =
                        (if q \<in> fst ` set (x # pubs)
                         then Some (Mapping.lookup_default [] m q
                                      @ map snd (filter (\<lambda>x. fst x = q) (x # pubs)))
                         else Mapping.lookup m q)" for q
    by (cases "q = p")
       (auto simp add: look x lookup_default_update lookup_default_update_neq lookup_update
          lookup_update_neq lookup_default_def filter_empty_conv)
  ultimately show ?case
    by blast
qed

lemma FormatUint_no_colon: "CHR '':'' \<notin> set (FormatUint p)"
  using FormatUint_chars [of "CHR '':''" p] by (auto simp add: not_digit)

lemma host_ports_addresses:
  "\<forall>(host, hp) \<in> set xs. CHR '':'' \<notin> set host \<Longrightarrow>
   host_ports acc (map (\<lambda>(host, hp). host @ '':'' @ FormatUint hp) xs)
     = Returned (Some (acc @ map snd xs), True)"
proof (induction xs arbitrary: acc)
  case Nil
  then show ?case by simp
next
  case (Cons x xs)
  obtain host hp where x: "x = (host, hp)"
    by (cases x)
  with Cons.prems have "CHR '':'' \<notin> set host"
    by simp
  then have "Split (host @ '':'' @ FormatUint hp) '':'' = [host, FormatUint hp]"
    using Split_once [of "CHR '':''" host "FormatUint hp" "[]"] by (simp add: FormatUint_no_colon)
  moreover from Cons have "host_ports (acc @ [hp]) (map (\<lambda>(host, hp). host @ '':'' @ FormatUint hp) xs)
     = Returned (Some ((acc @ [hp]) @ map snd xs), True)"
    by simp
  ultimately show ?case
    by (simp add: x ParseUint_FormatUint Let_def del: append_assoc)
qed

lemma ExposedPorts_present:
  "Mapping.lookup (portMappings c) port = Some (map (\<lambda>(host, hp). host @ '':'' @ FormatUint hp) xs) \<Longrightarrow>
   \<forall>(host, hp) \<in> set xs. CHR '':'' \<notin> set host \<Longrightarrow>
   ExposedPorts c port = Returned (Some (map snd xs), True)"
  using host_ports_addresses [of xs "[]"] by (simp add: ExposedPorts_def)

text \<open>
  C8. For a port that is in the mapping with the two addresses the runtime prints for a
  host with IPv4 and IPv6, \<open>0.0.0.0:32768\<close> and \<open>[::]:32768\<close>, \<open>ExposedPorts\<close> returns nil and
  false, as for a port that is not in the mapping, while \<open>ExposedPortAddresses\<close> returns
  both addresses: the host port is taken from the second piece of the address cut at
  every colon, which for the IPv6 address is empty.
\<close>

theorem ExposedPorts_ipv6_address_not_found:
  "ExposedPorts \<lparr>cid = ''0123456789ab'',
                  portMappings = Mapping.update 27017 [''0.0.0.0:32768'', ''[::]:32768''] Mapping.empty\<rparr>
     27017 = Returned (None, False)
   \<and> ExposedPortAddresses \<lparr>cid = ''0123456789ab'',
                  portMappings = Mapping.update 27017 [''0.0.0.0:32768'', ''[::]:32768''] Mapping.empty\<rparr>
     27017 = (Some [''0.0.0.0:32768'', ''[::]:32768''], True)"
  by (simp add: ExposedPorts_def ExposedPortAddresses_def Split_def ParseUint_def is_digit_def
      digit_val_def maxUint64_def Let_def)

lemma port_lines_first_unparsable:
  "\<forall>u \<in> set pre. 2 \<le> length (Split u '' -> '') \<Longrightarrow>
   ParseUint (ReplaceAll (Split t '' -> '' ! 0) ''/tcp'' []) = Inl e \<Longrightarrow>
   port_lines err serr m (pre @ t # post) = Returned (None, err)"
proof (induction pre arbitrary: m)
  case Nil
  then show ?case by (simp add: Let_def)
next
  case (Cons u pre)
  show ?case
  proof (cases "ParseUint (ReplaceAll (Split u '' -> '' ! 0) ''/tcp'' [])")
    case (Inl a)
    then show ?thesis by (simp add: Let_def)
  next
    case (Inr port)
    from Cons.prems have "\<forall>u \<in> set pre. 2 \<le> length (Split u '' -> '')"
      by simp
    from Cons.IH [OF this Cons.prems(2)]
    have "port_lines err serr
            (Mapping.update port (Mapping.lookup_default [] m port @ [Split u '' -> '' ! 1]) m)
            (pre @ t # post)
          = Returned (None, err)" .
    moreover from Cons.prems have "\<not> length (Split u '' -> '') < 2"
      by simp
    ultimately show ?thesis
      using Inr by (simp add: Let_def)
  qed
qed

lemma port_lines_arrow_missing:
  "\<forall>u \<in> set pre. 2 \<le> length (Split u '' -> '')
                 \<and> (\<exists>p. ParseUint (ReplaceAll (Split u '' -> '' ! 0) ''/tcp'' []) = Inr p) \<Longrightarrow>
   ParseUint (ReplaceAll (Split t '' -> '' ! 0) ''/tcp'' []) = Inr q \<Longrightarrow>
   length (Split t '' -> '') < 2 \<Longrightarrow>
   port_lines err serr m (pre @ t # post) = Panics"
proof (induction pre arbitrary: m)
  case Nil
  then show ?case by (simp add: Let_def)
next
  case (Cons u pre)
  from Cons.prems obtain p where p: "ParseUint (ReplaceAll (Split u '' -> '' ! 0) ''/tcp'' []) = Inr p"
    by auto
  from Cons.prems have "\<forall>u \<in> set pre. 2 \<le> length (Split u '' -> '')
                 \<and> (\<exists>p. ParseUint (ReplaceAll (Split u '' -> '' ! 0) ''/tcp'' []) = Inr p)"
    by simp
  from Cons.IH [OF this Cons.prems(2,3)]
  have "port_lines err serr
            (Mapping.update p (Mapping.lookup_default [] m p @ [Split u '' -> '' ! 1]) m)
            (pre @ t # post) = Panics" .
  moreover from Cons.prems have "\<not> length (Split u '' -> '') < 2"
    by simp
  ultimately show ?case
    using p by (simp add: Let_def)
qed

text \<open>
  C9, as the code has it. When the port query succeeds and a line of its output has a
  left-hand side that is no unsigned integer once \<open>/tcp\<close> is removed, and every line before
  that line has the arrow, \<open>getPublishedPorts\<close> returns a nil mapping and a nil error, the
  error of the command run and not the one of the parse. A round of the discovery loop
  that ticks then reports nothing and goes on to the next round, and when that round finds
  the caller's context done the loop reports the context's error, not the parse failure.
\<close>

theorem getPublishedPorts_unparsable_line:
  assumes ran: "run_err (exec w h (Docker ctx [''port'', ident])) = None"
    and lines: "fst (scan_lines [] (std_out (exec w h (Docker ctx [''port'', ident]))))
                  = pre @ t # post"
    and before: "\<forall>u \<in> set pre. 2 \<le> length (Split u '' -> '')"
    and bad: "ParseUint (ReplaceAll (Split t '' -> '' ! 0) ''/tcp'' []) = Inl e"
    and tick: "ctx_done w h = None"
  shows "getPublishedPorts w ctx ident h = (Returned (None, None), h @ [Docker ctx [''port'', ident]])
         \<and> discover_ports (Suc n) w ctx ident h
             = discover_ports n w ctx ident (h @ [Docker ctx [''port'', ident]])
         \<and> (ctx_done w (h @ [Docker ctx [''port'', ident]]) = Some ce \<longrightarrow>
              discover_ports (Suc (Suc n)) w ctx ident h
                = Some (Returned (Inl ce), h @ [Docker ctx [''port'', ident]]))"
proof -
  obtain ls serr
    where sc: "scan_lines [] (std_out (exec w h (Docker ctx [''port'', ident]))) = (ls, serr)"
    by (cases "scan_lines [] (std_out (exec w h (Docker ctx [''port'', ident])))")
  with lines have "ls = pre @ t # post"
    by simp
  with before bad have "port_lines None serr Mapping.empty ls = Returned (None, None)"
    by (simp add: port_lines_first_unparsable)
  with ran sc
  have g: "getPublishedPorts w ctx ident h = (Returned (None, None), h @ [Docker ctx [''port'', ident]])"
    by (simp add: getPublishedPorts_def run_def Let_def actionPort_def)
  with tick show ?thesis
    by simp
qed

lemma udp_line_unparsable:
  "ParseUint (ReplaceAll (Split ''80/udp -> 0.0.0.0:49155'' '' -> '' ! 0) ''/tcp'' []) = Inl ErrSyntax"
  by (simp add: Split_def ReplaceAll_def ParseUint_def is_digit_def digit_val_def maxUint64_def)

theorem getPublishedPorts_unparsable_line_witness:
  "getPublishedPorts (world_cancelled_after (''80/udp -> 0.0.0.0:49155'' @ [LF])) Caller
     ''0123456789ab'' []
     = (Returned (None, None), [Docker Caller [''port'', ''0123456789ab'']])
   \<and> discover_ports (Suc (Suc 0)) (world_cancelled_after (''80/udp -> 0.0.0.0:49155'' @ [LF]))
        Caller ''0123456789ab'' []
     = Some (Returned (Inl (Ctx_error ''context deadline exceeded'')),
             [Docker Caller [''port'', ''0123456789ab'']])"
proof -
  let ?w = "world_cancelled_after (''80/udp -> 0.0.0.0:49155'' @ [LF])"
  have ran: "run_err (exec ?w [] (Docker Caller [''port'', ''0123456789ab''])) = None"
    by (simp add: world_defs)
  have lines: "fst (scan_lines [] (std_out (exec ?w [] (Docker Caller [''port'', ''0123456789ab'']))))
                 = [] @ ''80/udp -> 0.0.0.0:49155'' # []"
    by (simp add: world_defs LF_def CR_def dropCR_def MaxScanTokenSize_def)
  have before: "\<forall>u \<in> set []. 2 \<le> length (Split u '' -> '')"
    by simp
  have tick: "ctx_done ?w [] = None"
    by (simp add: world_defs)
  have cancelled: "ctx_done ?w ([] @ [Docker Caller [''port'', ''0123456789ab'']])
                = Some (Ctx_error ''context deadline exceeded'')"
    by (simp add: world_defs)
  from getPublishedPorts_unparsable_line [OF ran lines before udp_line_unparsable tick, of 0
      "Ctx_error ''context deadline exceeded''"] cancelled
  show ?thesis
    by simp
qed

text \<open>
  C9, as the claim has it, fails where a line before the unparsable one has a left-hand
  side that parses and no arrow: the output \<open>80/tcp\<close>, \<open>x/tcp -> 0.0.0.0:1\<close> has the
  unparsable left-hand side \<open>x\<close> in its second line, and the call panics at \<open>parts[1]\<close> of
  the first line instead of returning.
\<close>

theorem getPublishedPorts_arrowless_line_panics:
  "run_err (exec (world_prints (''80/tcp'' @ [LF] @ ''x/tcp -> 0.0.0.0:1'' @ [LF])) []
      (Docker Caller [''port'', ''0123456789ab''])) = None
   \<and> fst (scan_lines [] (std_out (exec (world_prints (''80/tcp'' @ [LF] @ ''x/tcp -> 0.0.0.0:1'' @ [LF])) []
      (Docker Caller [''port'', ''0123456789ab'']))))
       = [''80/tcp'', ''x/tcp -> 0.0.0.0:1'']
   \<and> ParseUint (ReplaceAll (Split ''x/tcp -> 0.0.0.0:1'' '' -> '' ! 0) ''/tcp'' []) = Inl ErrSyntax
   \<and> getPublishedPorts (world_prints (''80/tcp'' @ [LF] @ ''x/tcp -> 0.0.0.0:1'' @ [LF])) Caller
        ''0123456789ab'' []
       = (Panics, [Docker Caller [''port'', ''0123456789ab'']])"
  by (simp add: getPublishedPorts_def world_defs LF_def CR_def dropCR_def MaxScanTokenSize_def
      Split_def ReplaceAll_def ParseUint_def is_digit_def digit_val_def maxUint64_def
      actionPort_def Let_def)

text \<open>
  C7, as the code has it. When the port query succeeds and prints one line \<open><port>/tcp -> <address>\<close> for each
  pair of a list of published ports, with addresses free of spaces and line breaks and
  lines that fit the scanner's buffer, \<open>getPublishedPorts\<close> returns a mapping and no error:
  a port is in the mapping exactly if it has a line, and is mapped to the addresses of its
  lines, each as printed, in the order of the lines.
\<close>

theorem getPublishedPorts_published_lines:
  assumes ran: "run_err (exec w h (Docker ctx [''port'', ident])) = None"
    and out: "std_out (exec w h (Docker ctx [''port'', ident]))
                = concat (map (\<lambda>(p, a). published_line p a @ [LF]) pubs)"
    and addrs: "\<forall>(p, a) \<in> set pubs.
                  CHR '' '' \<notin> set a \<and> LF \<notin> set a \<and> CR \<notin> set a
                  \<and> length (published_line p a) < MaxScanTokenSize"
  shows "\<exists>m. getPublishedPorts w ctx ident h
               = (Returned (Some m, None), h @ [Docker ctx [''port'', ident]])
            \<and> (\<forall>q. Mapping.lookup m q =
                      (if q \<in> fst ` set pubs then Some (map snd (filter (\<lambda>x. fst x = q) pubs))
                       else None))"
proof -
  let ?ls = "map (\<lambda>(p, a). published_line p a) pubs"
  have eq: "concat (map (\<lambda>(p, a). published_line p a @ [LF]) pubs)
          = concat (map (\<lambda>l. l @ [LF]) ?ls)"
    by (induction pubs) auto
  have cl: "\<forall>l \<in> set ?ls. LF \<notin> set l \<and> CR \<notin> set l \<and> length l < MaxScanTokenSize"
    using addrs by (auto simp add: published_line_clean)
  have sc: "scan_lines [] (std_out (exec w h (Docker ctx [''port'', ident]))) = (?ls, None)"
    unfolding out eq by (rule scan_lines_all [OF cl])
  from addrs have "\<forall>(p, a) \<in> set pubs. CHR '' '' \<notin> set a"
    by auto
  from port_lines_published [OF this, of None Mapping.empty] obtain m
    where "port_lines None None Mapping.empty ?ls = Returned (Some m, None)"
      and "\<forall>q. Mapping.lookup m q =
                      (if q \<in> fst ` set pubs then Some (map snd (filter (\<lambda>x. fst x = q) pubs))
                       else None)"
    by (auto simp add: lookup_default_empty)
  with ran sc show ?thesis
    by (simp add: getPublishedPorts_def run_def Let_def actionPort_def)
qed


theorem getPublishedPorts_published_lines_witness:
  "\<exists>m. getPublishedPorts world_published Caller ''0123456789ab'' []
          = (Returned (Some m, None), [Docker Caller [''port'', ''0123456789ab'']])
       \<and> Mapping.lookup m 80 = Some [''0.0.0.0:49155'', ''[::]:49155'']
       \<and> Mapping.lookup m 443 = Some [''0.0.0.0:49156'']
       \<and> Mapping.lookup m 8080 = None"
proof -
  have ran: "run_err (exec world_published [] (Docker Caller [''port'', ''0123456789ab''])) = None"
    by (simp add: world_published_def world_defs)
  have out: "std_out (exec world_published [] (Docker Caller [''port'', ''0123456789ab'']))
               = concat (map (\<lambda>(p, a). published_line p a @ [LF]) published_example)"
    by (simp add: world_published_def world_defs)
  have addrs: "\<forall>(p, a) \<in> set published_example.
                 CHR '' '' \<notin> set a \<and> LF \<notin> set a \<and> CR \<notin> set a
                 \<and> length (published_line p a) < MaxScanTokenSize"
    by (simp add: published_example_def published_line_def FormatUint_def format_int.simps
        LF_def CR_def MaxScanTokenSize_def)
  from getPublishedPorts_published_lines [OF ran out addrs] obtain m
    where "getPublishedPorts world_published Caller ''0123456789ab'' []
             = (Returned (Some m, None), [Docker Caller [''port'', ''0123456789ab'']])"
      and "\<forall>q. Mapping.lookup m q =
                 (if q \<in> fst ` set published_example
                  then Some (map snd (filter (\<lambda>x. fst x = q) published_example)) else None)"
    by auto
  then show ?thesis
    by (intro exI [of _ m]) (simp add: published_example_def)
qed

text \<open>
  C7, as the claim has it, fails for a published line that shares the output with a line
  whose left-hand side does not parse: of the output \<open>80/tcp -> 0.0.0.0:49155\<close>,
  \<open>53/udp -> 0.0.0.0:53\<close> nothing is stored, the call returns a nil mapping and a nil error.
\<close>

theorem getPublishedPorts_mixed_lines_dropped:
  "run_err (exec (world_prints (published_line 80 ''0.0.0.0:49155'' @ [LF] @ ''53/udp -> 0.0.0.0:53'' @ [LF])) []
      (Docker Caller [''port'', ''0123456789ab''])) = None
   \<and> fst (scan_lines [] (std_out (exec (world_prints (published_line 80 ''0.0.0.0:49155'' @ [LF] @ ''53/udp -> 0.0.0.0:53'' @ [LF])) []
      (Docker Caller [''port'', ''0123456789ab'']))))
       = [published_line 80 ''0.0.0.0:49155'', ''53/udp -> 0.0.0.0:53'']
   \<and> published_line 80 ''0.0.0.0:49155'' = ''80/tcp -> 0.0.0.0:49155''
   \<and> getPublishedPorts (world_prints (published_line 80 ''0.0.0.0:49155'' @ [LF] @ ''53/udp -> 0.0.0.0:53'' @ [LF])) Caller
        ''0123456789ab'' []
       = (Returned (None, None), [Docker Caller [''port'', ''0123456789ab'']])"
  by (simp add: getPublishedPorts_def world_defs LF_def CR_def dropCR_def MaxScanTokenSize_def
      Split_def ReplaceAll_def ParseUint_def is_digit_def digit_val_def maxUint64_def
      actionPort_def Let_def published_line_def FormatUint_def format_int.simps digit_char_eval)

end
